theory Spec2Isabelle
  imports Main "HOL-Library.Word"
begin

section \<open>The peer store (src/metrics/peerstore.go)\<close>

subsection \<open>Data model\<close>

text \<open>
  The \<open>Peer\<close> struct is declared outside the files at hand; the record below carries
  the fields that peerstore.go reads or writes. Every definition over peers is stated on
  the extensible scheme \<open>'a Peer_scheme\<close>, so the remaining fields of the struct are
  the extension \<open>'a\<close>. \<open>Attempts\<close> is a Go integer, taken as an unsigned 64-bit word:
  \<open>p.Attempts += 1\<close> wraps at \<open>2 ^ 64\<close>. A Go \<open>error\<close> is \<open>None\<close> for \<open>nil\<close> and
  \<open>Some msg\<close> otherwise.
\<close>

record Peer =
  PeerId :: string
  Attempted :: bool
  Succeed :: bool
  Attempts :: "64 word"
  Error :: string
  MetadataRequest :: bool
  MetadataSucceed :: bool

type_synonym error = "string option"

datatype backend = Bolt string | Memory

text \<open>
  \<open>PeerStoreStorage\<close> is an interface with \<open>Store\<close>, \<open>Load\<close> and \<open>Range\<close>; its two
  implementations are built by \<open>NewBoltPeerDB\<close> and \<open>NewMemoryDB\<close>. A storage is the
  backend that was selected together with the key-value contents.
\<close>

record 'p PeerStoreStorage =
  Backend :: backend
  Contents :: "string \<rightharpoonup> 'p"

definition Store :: "'p PeerStoreStorage \<Rightarrow> string \<Rightarrow> 'p \<Rightarrow> 'p PeerStoreStorage" where
  "Store db key v = db\<lparr>Contents := (Contents db)(key \<mapsto> v)\<rparr>"

definition Load :: "'p PeerStoreStorage \<Rightarrow> string \<Rightarrow> 'p option" where
  "Load db key = Contents db key"

text \<open>
  \<open>NewBoltPeerDB path\<close> opens the file at \<open>path\<close>; \<open>disk\<close> gives what each file
  holds. \<open>NewMemoryDB\<close> starts empty.
\<close>

definition NewBoltPeerDB :: "(string \<Rightarrow> (string \<rightharpoonup> 'p)) \<Rightarrow> string \<Rightarrow> 'p PeerStoreStorage" where
  "NewBoltPeerDB disk path = \<lparr>Backend = Bolt path, Contents = disk path\<rparr>"

definition NewMemoryDB :: "'p PeerStoreStorage" where
  "NewMemoryDB = \<lparr>Backend = Memory, Contents = Map.empty\<rparr>"

record 'p PeerStore =
  PeerStore :: "'p PeerStoreStorage"
  StartTime :: int
  PeerstoreIterTime :: int
  MsgNotChannels :: "string \<rightharpoonup> bool list"

subsection \<open>NewPeerStore\<close>

text \<open>
  The switch of \<open>NewPeerStore\<close>, with its three arms in the order of the source. The
  package constant \<open>default_db_path\<close> is a parameter, and \<open>now\<close> is the value of
  \<open>time.Now()\<close>.
\<close>

definition NewPeerStore ::
  "string \<Rightarrow> (string \<Rightarrow> (string \<rightharpoonup> 'p)) \<Rightarrow> int \<Rightarrow> string \<Rightarrow> string \<Rightarrow> 'p PeerStore" where
  "NewPeerStore default_db_path disk now dbtype path =
    (let db =
       (if dbtype = ''bold'' then
          (let path1 = (if length path \<le> 0 then default_db_path else path)
           in NewBoltPeerDB disk path1)
        else if dbtype = ''memory'' then NewMemoryDB
        else
          (let path1 = (if length path \<le> 0 then default_db_path else path)
           in NewBoltPeerDB disk path1))
     in \<lparr>PeerStore = db, StartTime = now, PeerstoreIterTime = 0,
         MsgNotChannels = Map.empty\<rparr>)"

subsection \<open>Single-peer operations\<close>

definition StorePeer :: "'a Peer_scheme PeerStore \<Rightarrow> 'a Peer_scheme \<Rightarrow> 'a Peer_scheme PeerStore" where
  "StorePeer c peer = c\<lparr>PeerStore := Store (PeerStore c) (PeerId peer) peer\<rparr>"

text \<open>
  \<open>GetPeerData\<close> returns \<open>(Peer{}, err)\<close> when the key is absent; no caller reads the
  zero peer, so the failure is \<open>Inl err\<close>.
\<close>

definition GetPeerData :: "'a Peer_scheme PeerStore \<Rightarrow> string \<Rightarrow> string + 'a Peer_scheme" where
  "GetPeerData c peerId =
    (case Load (PeerStore c) peerId of
       None \<Rightarrow> Inl (''could not find peer in peerstore: '' @ peerId)
     | Some peerData \<Rightarrow> Inr peerData)"

text \<open>
  \<open>FilterError\<close> (package utils) is the error classifier and \<open>fn\<close> the caller's
  \<open>ErrorHandling\<close> callback; both are parameters.
\<close>

definition AddNewNegConnectionAttempt ::
  "(string \<Rightarrow> string) \<Rightarrow> 'a Peer_scheme PeerStore \<Rightarrow> string \<Rightarrow> string \<Rightarrow>
   ('a Peer_scheme \<Rightarrow> 'a Peer_scheme) \<Rightarrow> 'a Peer_scheme PeerStore \<times> error" where
  "AddNewNegConnectionAttempt FilterError c ident rec_err fn =
    (case GetPeerData c ident of
       Inl err \<Rightarrow> (c, Some (''Not peer found with that ID '' @ ident))
     | Inr p \<Rightarrow>
        (let p1 = p\<lparr>Attempts := Attempts p + 1\<rparr>;
             p2 = (if \<not> Attempted p1
                   then p1\<lparr>Attempted := True, Error := FilterError rec_err\<rparr>
                   else p1);
             p3 = fn p2
         in (StorePeer c p3, None)))"

text \<open>
  \<open>AddPositiveConnAttempt\<close> is a method of \<open>Peer\<close> declared elsewhere (it cleans the
  list of negative attempts); it is the parameter \<open>addPositiveConnAttempt\<close>.
\<close>

definition AddNewPosConnectionAttempt ::
  "('a Peer_scheme \<Rightarrow> 'a Peer_scheme) \<Rightarrow> 'a Peer_scheme PeerStore \<Rightarrow> string \<Rightarrow>
   'a Peer_scheme PeerStore \<times> error" where
  "AddNewPosConnectionAttempt addPositiveConnAttempt c ident =
    (case GetPeerData c ident of
       Inl err \<Rightarrow> (c, Some (''Not peer found with that ID '' @ ident))
     | Inr p \<Rightarrow>
        (let p1 = p\<lparr>Attempts := Attempts p + 1\<rparr>;
             p2 = (if \<not> Attempted p1 then p1\<lparr>Attempted := True\<rparr> else p1);
             p3 = p2\<lparr>Succeed := True, Error := ''None''\<rparr>;
             p4 = addPositiveConnAttempt p3
         in (StorePeer c p4, None)))"

text \<open>
  The remaining event operations delegate to methods of \<open>Peer\<close> that are declared
  elsewhere; each takes that method as its first parameter, and \<open>now\<close> is \<open>time.Now()\<close>.
\<close>

definition ConnectionEvent ::
  "(string \<Rightarrow> int \<Rightarrow> 'a Peer_scheme \<Rightarrow> 'a Peer_scheme) \<Rightarrow> int \<Rightarrow>
   'a Peer_scheme PeerStore \<Rightarrow> string \<Rightarrow> string \<Rightarrow> 'a Peer_scheme PeerStore \<times> error" where
  "ConnectionEvent peerConnectionEvent now c peerId direction =
    (case GetPeerData c peerId of
       Inl err \<Rightarrow>
         (c, Some (''could not add connection event, peer is not in the list: '' @ peerId))
     | Inr peer \<Rightarrow> (StorePeer c (peerConnectionEvent direction now peer), None))"

definition DisconnectionEvent ::
  "(int \<Rightarrow> 'a Peer_scheme \<Rightarrow> 'a Peer_scheme) \<Rightarrow> int \<Rightarrow>
   'a Peer_scheme PeerStore \<Rightarrow> string \<Rightarrow> 'a Peer_scheme PeerStore \<times> error" where
  "DisconnectionEvent peerDisconnectionEvent now c peerId =
    (case GetPeerData c peerId of
       Inl err \<Rightarrow>
         (c, Some (''could not add disconnection event, peer is not in the list: '' @ peerId))
     | Inr peer \<Rightarrow> (StorePeer c (peerDisconnectionEvent now peer), None))"

definition MetadataEvent ::
  "'a Peer_scheme PeerStore \<Rightarrow> string \<Rightarrow> bool \<Rightarrow> 'a Peer_scheme PeerStore \<times> error" where
  "MetadataEvent c peerId success =
    (case GetPeerData c peerId of
       Inl err \<Rightarrow>
         (c, Some (''could not add metadata event, peer is not in the list: '' @ peerId))
     | Inr peer \<Rightarrow>
        (let peer1 = peer\<lparr>MetadataRequest := True\<rparr>;
             peer2 = (if success then peer1\<lparr>MetadataSucceed := True\<rparr> else peer1)
         in (StorePeer c peer2, None)))"

definition ConnectionAttemptEvent ::
  "(bool \<Rightarrow> string \<Rightarrow> 'a Peer_scheme \<Rightarrow> 'a Peer_scheme) \<Rightarrow>
   'a Peer_scheme PeerStore \<Rightarrow> string \<Rightarrow> bool \<Rightarrow> string \<Rightarrow> 'a Peer_scheme PeerStore \<times> error" where
  "ConnectionAttemptEvent peerConnectionAttemptEvent c peerId succeed conErr =
    (case GetPeerData c peerId of
       Inl err \<Rightarrow>
         (c, Some (''could not add connection attempt, peer is not in the list: '' @ peerId))
     | Inr peer \<Rightarrow> (StorePeer c (peerConnectionAttemptEvent succeed conErr peer), None))"

definition MessageEvent ::
  "(string \<Rightarrow> int \<Rightarrow> 'a Peer_scheme \<Rightarrow> 'a Peer_scheme) \<Rightarrow> int \<Rightarrow>
   'a Peer_scheme PeerStore \<Rightarrow> string \<Rightarrow> string \<Rightarrow> 'a Peer_scheme PeerStore \<times> error" where
  "MessageEvent peerMessageEvent now c peerId topicName =
    (case GetPeerData c peerId of
       Inl err \<Rightarrow>
         (c, Some (''could not add message event, peer is not in the list: '' @ peerId))
     | Inr peer \<Rightarrow> (StorePeer c (peerMessageEvent topicName now peer), None))"

section \<open>The gossip message id (src/gossipsub/gossipsub.go)\<close>

type_synonym byte = "8 word"

text \<open>
  The protobuf message of the pubsub library, with the fields it declares;
  \<open>MsgIDFunction\<close> reads \<open>Data\<close> only.
\<close>

record Message =
  From :: "byte list"
  Data :: "byte list"
  Seqno :: "byte list"
  Topic :: string
  Signature :: "byte list"
  Key :: "byte list"

text \<open>
  The hash object of the sha256 library: \<open>New\<close> starts with nothing written,
  \<open>Write\<close> appends and never errors, \<open>Sum b\<close> appends the digest of what was written to
  \<open>b\<close>. The digest function itself, SHA-256, belongs to the library and is the
  parameter \<open>sum256\<close>.
\<close>

definition New :: "byte list" where
  "New = []"

definition Write :: "byte list \<Rightarrow> byte list \<Rightarrow> byte list" where
  "Write h p = h @ p"

definition Sum :: "(byte list \<Rightarrow> byte list) \<Rightarrow> byte list \<Rightarrow> byte list \<Rightarrow> byte list" where
  "Sum sum256 h b = b @ sum256 h"

text \<open>
  \<open>base64.URLEncoding\<close>: the URL-safe alphabet with the standard padding character.
  \<open>EncodeToString\<close> follows the encoder of the standard library: three bytes give
  four characters, and a remainder of one or two bytes is padded with \<open>=\<close>.
\<close>

definition encodeURL :: string where
  "encodeURL = ''ABCDEFGHIJKLMNOPQRSTUVWXYZabcdefghijklmnopqrstuvwxyz0123456789-_''"

definition StdPadding :: char where
  "StdPadding = CHR ''=''"

definition enc :: "nat \<Rightarrow> char" where
  "enc v = encodeURL ! (v mod 64)"

fun EncodeToString :: "byte list \<Rightarrow> string" where
  "EncodeToString [] = []"
| "EncodeToString [b0] =
    (let val = unat b0 * 65536
     in [enc (val div 262144), enc (val div 4096), StdPadding, StdPadding])"
| "EncodeToString [b0, b1] =
    (let val = unat b0 * 65536 + unat b1 * 256
     in [enc (val div 262144), enc (val div 4096), enc (val div 64), StdPadding])"
| "EncodeToString (b0 # b1 # b2 # src) =
    (let val = unat b0 * 65536 + unat b1 * 256 + unat b2
     in [enc (val div 262144), enc (val div 4096), enc (val div 64), enc val]
        @ EncodeToString src)"

text \<open>The 24-bit group that the encoder forms from three bytes.\<close>

definition val3 :: "byte \<Rightarrow> byte \<Rightarrow> byte \<Rightarrow> nat" where
  "val3 a b c = unat a * 65536 + unat b * 256 + unat c"

definition MsgIDFunction :: "(byte list \<Rightarrow> byte list) \<Rightarrow> 'a Message_scheme \<Rightarrow> string" where
  "MsgIDFunction sum256 pmsg =
    (let h = New;
         h1 = Write h (Data pmsg);
         ident = Sum sum256 h1 []
     in EncodeToString ident)"

text \<open>The message id as the specification words it: base64url of sha256 of the data.\<close>

definition spec_msg_id :: "(byte list \<Rightarrow> byte list) \<Rightarrow> 'a Message_scheme \<Rightarrow> string" where
  "spec_msg_id sum256 m = EncodeToString (sum256 (Data m))"

section \<open>The Filecoin crawler: discovery feed and workers\<close>

subsection \<open>Constants and the peer database\<close>

definition Second :: int where
  "Second = 1000000000"

definition workers :: nat where
  "workers = 100"

definition minWaitTime :: int where
  "minWaitTime = 5 * Second"

text \<open>
  \<open>AddrInfo\<close> is the peer id with its multi-addresses. \<open>FilecoinPeer\<close> is declared
  outside the files at hand; the crawler reads its fields \<open>PeerId\<close> and \<open>MAddrs\<close>
  (the former is \<open>FPeerId\<close> here, the name \<open>PeerId\<close> being a field of \<open>Peer\<close>).
\<close>

record AddrInfo =
  ID :: string
  Addrs :: "string list"

record FilecoinPeer =
  FPeerId :: string
  MAddrs :: "string list"

text \<open>
  Modelled from the spec: the \<open>PostgresDBService\<close> with \<open>StoreFilecoinPeer\<close>,
  \<open>LoadFilecoinPeer\<close> and \<open>GetFilecoinPeers\<close> is missing. It is a store keyed by peer
  id: a store is an unconditional write, a load gives the peer or not-found, and the
  enumeration visits every key once.
\<close>

type_synonym PostgresDBService = "(string \<times> FilecoinPeer) list"

fun StoreFilecoinPeer :: "PostgresDBService \<Rightarrow> string \<Rightarrow> FilecoinPeer \<Rightarrow> PostgresDBService" where
  "StoreFilecoinPeer [] k v = [(k, v)]"
| "StoreFilecoinPeer ((k', v') # db) k v =
    (if k' = k then (k, v) # db else (k', v') # StoreFilecoinPeer db k v)"

definition LoadFilecoinPeer :: "PostgresDBService \<Rightarrow> string \<Rightarrow> FilecoinPeer option" where
  "LoadFilecoinPeer db k = map_of db k"

definition GetFilecoinPeers :: "PostgresDBService \<Rightarrow> string list" where
  "GetFilecoinPeers db = map fst db"

subsection \<open>discoveredPeers\<close>

text \<open>
  The struct \<open>discoveredPeers\<close>. The \<open>sync.Map\<close> blacklist maps a blacklisted id to
  the empty struct. \<open>nPeerChan\<close> is the sequence of ids sent on the output channel so
  far, \<open>nPeerReq\<close> the number of request tokens waiting in the request channel, and
  \<open>closed\<close> says that \<open>Run\<close> has closed the two channels (it closes both at one
  place, on shutdown). The capacity \<open>workers\<close> of the channels is not modelled: a send
  on an open channel is taken to complete. \<open>db\<close> is the database shared with the
  workers.
\<close>

record discoveredPeers =
  pArray :: "string list"
  blacklist :: "string \<rightharpoonup> unit"
  nPeerChan :: "string list"
  nPeerReq :: nat
  closed :: bool
  db :: PostgresDBService

text \<open>
  The state of the crawl extends it by the two variables \<open>pointer\<close> and \<open>refreshFlag\<close>
  that the goroutine of \<open>Run\<close> closes over, by the place that goroutine is at
  (\<open>pending = Some pid\<close> when it has tested \<open>pid\<close> against the blacklist and has not
  yet sent it, \<open>None\<close> otherwise), by whether the context has been cancelled, and by
  what the goroutines did to the outside: the total time slept and the calls of
  \<open>Host.Connect\<close>.
\<close>

record crawl = discoveredPeers +
  pointer :: nat
  refreshFlag :: bool
  pending :: "string option"
  ctxDone :: bool
  slept :: int
  connects :: "AddrInfo list"

fun refreshPeerList_loop ::
  "PostgresDBService \<Rightarrow> string list \<Rightarrow> string list \<Rightarrow> string list" where
  "refreshPeerList_loop dbs [] arr = arr"
| "refreshPeerList_loop dbs (pID # peers) arr =
    (case LoadFilecoinPeer dbs pID of
       None \<Rightarrow> refreshPeerList_loop dbs peers arr
     | Some p \<Rightarrow> refreshPeerList_loop dbs peers (arr @ [pID]))"

definition refreshPeerList :: "'a discoveredPeers_scheme \<Rightarrow> 'a discoveredPeers_scheme" where
  "refreshPeerList d =
    d\<lparr>pArray := refreshPeerList_loop (db d) (GetFilecoinPeers (db d)) (pArray d)\<rparr>"

definition NewDiscoveryPeers :: "PostgresDBService \<Rightarrow> discoveredPeers" where
  "NewDiscoveryPeers dbs =
    refreshPeerList
      \<lparr>pArray = [], blacklist = Map.empty, nPeerChan = [], nPeerReq = 0, closed = False,
       db = dbs\<rparr>"

text \<open>
  A send of a token on the open request channel, and \<open>ReqNextPeer\<close> as any goroutine
  may call it: on the closed channel the send panics (\<open>Inl\<close>).
\<close>

definition nPeerReq_send :: "'a discoveredPeers_scheme \<Rightarrow> 'a discoveredPeers_scheme" where
  "nPeerReq_send d = d\<lparr>nPeerReq := nPeerReq d + 1\<rparr>"

definition ReqNextPeer :: "'a discoveredPeers_scheme \<Rightarrow> string + 'a discoveredPeers_scheme" where
  "ReqNextPeer d =
    (if closed d then Inl ''send on closed channel'' else Inr (nPeerReq_send d))"

definition Blacklist :: "'a discoveredPeers_scheme \<Rightarrow> string \<Rightarrow> 'a discoveredPeers_scheme" where
  "Blacklist d peerID = d\<lparr>blacklist := (blacklist d)(peerID \<mapsto> ())\<rparr>"

definition isBlacklisted :: "'a discoveredPeers_scheme \<Rightarrow> string \<Rightarrow> bool" where
  "isBlacklisted d peerID = (case blacklist d peerID of None \<Rightarrow> False | Some u \<Rightarrow> True)"

subsection \<open>The feed goroutine of Run\<close>

definition Run_init :: "discoveredPeers \<Rightarrow> crawl" where
  "Run_init d =
    discoveredPeers.extend d
      \<lparr>pointer = 0, refreshFlag = False, pending = None, ctxDone = False, slept = 0,
       connects = []\<rparr>"

text \<open>The test that ends the request arm of the select.\<close>

definition Run_refresh :: "crawl \<Rightarrow> crawl" where
  "Run_refresh s =
    (if refreshFlag s \<or> pointer s \<ge> length (pArray s) then refreshPeerList s else s)"

text \<open>
  The arm \<open>case <-d.nPeerReq\<close>, after the token has been received, run from its
  first statement to its last. Reading \<open>d.pArray[pointer]\<close> out of range panics
  (\<open>Inl\<close>). The \<open>continue\<close> of the blacklisted branch leaves the arm before the refresh
  test. The goroutine of \<open>Run\<close> is the only one that closes the two channels, and it
  returns right after closing them, so the sends of this arm, the call of
  \<open>d.ReqNextPeer()\<close> among them, find the channels open: they are \<open>nPeerReq_send\<close>
  and the append to \<open>nPeerChan\<close>.
\<close>

definition Run_nPeerReq :: "crawl \<Rightarrow> string + crawl" where
  "Run_nPeerReq s =
    (if length (pArray s) \<noteq> 0 then
       (if pointer s < length (pArray s) then
          (let pid = pArray s ! pointer s;
               s1 = s\<lparr>pointer := pointer s + 1\<rparr>
           in if isBlacklisted s1 pid then Inr (s1\<lparr>nPeerReq := nPeerReq s1 + 1\<rparr>)
              else Inr (Run_refresh (s1\<lparr>nPeerChan := nPeerChan s1 @ [pid]\<rparr>)))
        else Inl ''index out of range'')
     else
       (let s1 = s\<lparr>slept := slept s + minWaitTime\<rparr>;
            s2 = nPeerReq_send s1;
            s3 = s2\<lparr>refreshFlag := True\<rparr>
        in Inr (Run_refresh s3)))"

text \<open>
  The same arm in the two parts between which other goroutines can run. \<open>Run_test\<close>
  goes up to the answer of \<open>d.isBlacklisted(pid)\<close>: on a blacklisted entry and on the
  empty array it finishes the arm, otherwise it stops before the send with
  \<open>pending = Some pid\<close>. \<open>Run_send\<close> is the rest: the send \<open>d.nPeerChan <- pid\<close> and
  the refresh test.
\<close>

definition Run_test :: "crawl \<Rightarrow> string + crawl" where
  "Run_test s =
    (if length (pArray s) \<noteq> 0 then
       (if pointer s < length (pArray s) then
          (let pid = pArray s ! pointer s;
               s1 = s\<lparr>pointer := pointer s + 1\<rparr>
           in if isBlacklisted s1 pid then Inr (s1\<lparr>nPeerReq := nPeerReq s1 + 1\<rparr>)
              else Inr (s1\<lparr>pending := Some pid\<rparr>))
        else Inl ''index out of range'')
     else
       (let s1 = s\<lparr>slept := slept s + minWaitTime\<rparr>;
            s2 = nPeerReq_send s1;
            s3 = s2\<lparr>refreshFlag := True\<rparr>
        in Inr (Run_refresh s3)))"

definition Run_send :: "crawl \<Rightarrow> crawl" where
  "Run_send s =
    (case pending s of
       None \<Rightarrow> s
     | Some pid \<Rightarrow> Run_refresh (s\<lparr>nPeerChan := nPeerChan s @ [pid], pending := None\<rparr>))"

text \<open>The arm \<open>case <-d.ctx.Done()\<close>: both channels are closed and the goroutine returns.\<close>

definition Run_ctxDone :: "crawl \<Rightarrow> crawl" where
  "Run_ctxDone s = s\<lparr>closed := True\<rparr>"

subsection \<open>One iteration of a worker of crawlNetwork\<close>

text \<open>
  What a worker does with the outside world: \<open>Decode\<close> is \<open>peer.Decode\<close>, \<open>Connect\<close>
  the outcome of \<open>Host.Connect\<close> (\<open>None\<close> for success, otherwise the error),
  \<open>ExtractHostInfo\<close> and \<open>fetchNeighbors\<close> the two methods of the crawler declared
  elsewhere; the error of \<open>fetchNeighbors\<close> is only logged.
\<close>

record host_env =
  Decode :: "string \<Rightarrow> string"
  Connect :: "AddrInfo \<Rightarrow> error"
  ExtractHostInfo :: "AddrInfo \<Rightarrow> FilecoinPeer"
  fetchNeighbors :: "AddrInfo \<Rightarrow> AddrInfo list"

fun store_neighbors :: "host_env \<Rightarrow> AddrInfo list \<Rightarrow> PostgresDBService \<Rightarrow> PostgresDBService" where
  "store_neighbors env [] dbs = dbs"
| "store_neighbors env (newPeer # ns) dbs =
    (let fpeer = ExtractHostInfo env newPeer
     in store_neighbors env ns (StoreFilecoinPeer dbs (FPeerId fpeer) fpeer))"

text \<open>
  The call of \<open>ReqNextPeer\<close> that ends an iteration. The result is the state the
  worker leaves and the panic, if the send panicked.
\<close>

definition worker_request :: "crawl \<Rightarrow> crawl \<times> error" where
  "worker_request s =
    (case ReqNextPeer s of Inl msg \<Rightarrow> (s, Some msg) | Inr s1 \<Rightarrow> (s1, None))"

text \<open>
  The arm \<open>case pid := <-npeer\<close> of a worker. A peer that the database does not hold
  loads as the zero value, whose address list is empty; so does the empty id that a
  receive on the closed output channel gives.
\<close>

definition crawlNetwork_worker :: "host_env \<Rightarrow> crawl \<Rightarrow> string \<Rightarrow> crawl \<times> error" where
  "crawlNetwork_worker env s pid =
    (let pID = Decode env pid;
         p = (case LoadFilecoinPeer (db s) pid of
                None \<Rightarrow> \<lparr>FPeerId = [], MAddrs = []\<rparr>
              | Some q \<Rightarrow> q);
         maddr = \<lparr>ID = pID, Addrs = [] @ MAddrs p\<rparr>
     in if length (Addrs maddr) = 0 then
          worker_request (s\<lparr>slept := slept s + 1 * Second\<rparr>)
        else
          (let s1 = s\<lparr>connects := connects s @ [maddr]\<rparr>;
               s2 = (case Connect env maddr of
                       Some err \<Rightarrow> Blacklist s1 pid
                     | None \<Rightarrow>
                        (let fpeer = ExtractHostInfo env maddr;
                             dbs1 = StoreFilecoinPeer (db s1) (FPeerId fpeer) fpeer;
                             neighborsRt = fetchNeighbors env maddr
                         in s1\<lparr>db := store_neighbors env neighborsRt dbs1\<rparr>))
           in worker_request s2))"

subsection \<open>Executions\<close>

text \<open>
  The goroutines interleave. An execution is a sequence of events. The feed receives a
  token and runs its request arm up to the blacklist test (\<open>FeedTest\<close>, enabled when
  the feed is at its select, has not shut down and a token waits), it completes a
  pending send (\<open>FeedSend\<close>), or it takes the shutdown arm (\<open>FeedDone\<close>, enabled at
  the select once the context is cancelled). The context is cancelled. A worker runs
  one of its effects on the shared state: a request, a blacklisting, a store, or a
  whole iteration for an id it received. An event that is not enabled leaves the state
  as it is; a panic ends the execution.
\<close>

datatype event =
  FeedTest
  | FeedSend
  | FeedDone
  | Cancel
  | WorkerReq
  | WorkerBlacklist string
  | WorkerStore string FilecoinPeer
  | WorkerIteration host_env string

fun step :: "crawl \<Rightarrow> event \<Rightarrow> string + crawl" where
  "step s FeedTest =
    (if closed s \<or> pending s \<noteq> None \<or> nPeerReq s = 0 then Inr s
     else Run_test (s\<lparr>nPeerReq := nPeerReq s - 1\<rparr>))"
| "step s FeedSend = Inr (Run_send s)"
| "step s FeedDone =
    (if ctxDone s \<and> \<not> closed s \<and> pending s = None then Inr (Run_ctxDone s) else Inr s)"
| "step s Cancel = Inr (s\<lparr>ctxDone := True\<rparr>)"
| "step s WorkerReq = ReqNextPeer s"
| "step s (WorkerBlacklist p) = Inr (Blacklist s p)"
| "step s (WorkerStore k v) = Inr (s\<lparr>db := StoreFilecoinPeer (db s) k v\<rparr>)"
| "step s (WorkerIteration env pid) =
    (case crawlNetwork_worker env s pid of
       (s1, None) \<Rightarrow> Inr s1
     | (s1, Some msg) \<Rightarrow> Inl msg)"

fun exec :: "crawl \<Rightarrow> event list \<Rightarrow> string + crawl" where
  "exec s [] = Inr s"
| "exec s (e # es) = (case step s e of Inl err \<Rightarrow> Inl err | Inr s1 \<Rightarrow> exec s1 es)"

subsection \<open>Sequences of connection attempts on the peer store\<close>

datatype 'a attempt = Neg string "'a Peer_scheme \<Rightarrow> 'a Peer_scheme" | Pos

fun attempt_op ::
  "(string \<Rightarrow> string) \<Rightarrow> ('a Peer_scheme \<Rightarrow> 'a Peer_scheme) \<Rightarrow> string \<Rightarrow>
   'a Peer_scheme PeerStore \<Rightarrow> 'a attempt \<Rightarrow> 'a Peer_scheme PeerStore" where
  "attempt_op FilterError addPositiveConnAttempt ident c (Neg rec_err fn) =
     fst (AddNewNegConnectionAttempt FilterError c ident rec_err fn)"
| "attempt_op FilterError addPositiveConnAttempt ident c Pos =
     fst (AddNewPosConnectionAttempt addPositiveConnAttempt c ident)"

definition attempts_run ::
  "(string \<Rightarrow> string) \<Rightarrow> ('a Peer_scheme \<Rightarrow> 'a Peer_scheme) \<Rightarrow> string \<Rightarrow>
   'a Peer_scheme PeerStore \<Rightarrow> 'a attempt list \<Rightarrow> 'a Peer_scheme PeerStore" where
  "attempts_run FilterError addPositiveConnAttempt ident c ops =
     foldl (attempt_op FilterError addPositiveConnAttempt ident) c ops"

text \<open>
  The callback of a negative attempt and \<open>AddPositiveConnAttempt\<close> decorate the
  record; \<open>keeps_attempt_fields\<close> says that such a function leaves \<open>PeerId\<close>,
  \<open>Attempts\<close> and \<open>Attempted\<close> as they are.
\<close>

definition keeps_attempt_fields :: "('a Peer_scheme \<Rightarrow> 'a Peer_scheme) \<Rightarrow> bool" where
  "keeps_attempt_fields f =
    (\<forall>q. PeerId (f q) = PeerId q \<and> Attempts (f q) = Attempts q \<and>
         Attempted (f q) = Attempted q)"

fun attempt_ok :: "'a attempt \<Rightarrow> bool" where
  "attempt_ok (Neg rec_err fn) = keeps_attempt_fields fn"
| "attempt_ok Pos = True"

subsection \<open>Example inputs\<close>

definition example_peer :: Peer where
  "example_peer =
    \<lparr>PeerId = ''P3'', Attempted = True, Succeed = False, Attempts = 1,
     Error = ''dial-timeout'', MetadataRequest = False, MetadataSucceed = False\<rparr>"

definition example_prune :: "Peer \<Rightarrow> Peer" where
  "example_prune p = p\<lparr>Attempted := False, Attempts := 0\<rparr>"

definition example_store :: "Peer PeerStore" where
  "example_store =
    \<lparr>PeerStore = \<lparr>Backend = Memory, Contents = [''P3'' \<mapsto> example_peer]\<rparr>,
     StartTime = 0, PeerstoreIterTime = 0, MsgNotChannels = Map.empty\<rparr>"

definition example_sum256 :: "byte list \<Rightarrow> byte list" where
  "example_sum256 d =
    [of_nat (length d), 11, 19, 27, 35, 43, 51, 59, 67, 75, 83, 91, 99, 107, 115, 123, 131, 139, 147, 155, 163, 171, 179, 187, 195, 203, 211, 219, 227, 235, 251, 255]"

definition example_msg :: "string \<Rightarrow> Message" where
  "example_msg sender =
    \<lparr>From = map (of_nat \<circ> of_char) sender, Data = [1, 2, 3], Seqno = [], Topic = ''T'',
     Signature = [], Key = []\<rparr>"

definition example_env :: host_env where
  "example_env =
    \<lparr>Decode = (\<lambda>pid. pid),
     Connect = (\<lambda>a. Some ''dial-timeout''),
     ExtractHostInfo = (\<lambda>a. \<lparr>FPeerId = ID a, MAddrs = Addrs a\<rparr>),
     fetchNeighbors = (\<lambda>a. [])\<rparr>"

definition example_crawl :: crawl where
  "example_crawl =
    \<lparr>pArray = [''P1''], blacklist = Map.empty, nPeerChan = [], nPeerReq = 0,
     closed = False,
     db = [(''P1'', \<lparr>FPeerId = ''P1'', MAddrs = [''/ip4/10.0.0.1/tcp/1347'']\<rparr>),
           (''P2'', \<lparr>FPeerId = ''P2'', MAddrs = []\<rparr>)],
     pointer = 0, refreshFlag = False, pending = None, ctxDone = False, slept = 0,
     connects = []\<rparr>"

section \<open>Properties of the peer store\<close>

lemma Load_StorePeer: "Load (PeerStore (StorePeer c p)) k = (if k = PeerId p then Some p else Load (PeerStore c) k)"
  by (simp add: StorePeer_def Store_def Load_def)

lemma Attempted_update_id: "Attempted p \<Longrightarrow> p\<lparr>Attempted := True\<rparr> = p"
  by (cases p) simp

lemma neg_present:
  assumes "Load (PeerStore c) ident = Some p"
  shows "AddNewNegConnectionAttempt FilterError c ident rec_err fn =
     (StorePeer c (fn (p\<lparr>Attempts := Attempts p + 1, Attempted := True,
                        Error := (if Attempted p then Error p else FilterError rec_err)\<rparr>)), None)"
  using assms
  by (cases "Attempted p")
    (simp_all add: AddNewNegConnectionAttempt_def GetPeerData_def Let_def Attempted_update_id)

lemma pos_present:
  assumes "Load (PeerStore c) ident = Some p"
  shows "AddNewPosConnectionAttempt apc c ident =
     (StorePeer c (apc (p\<lparr>Attempts := Attempts p + 1, Attempted := True,
                        Succeed := True, Error := ''None''\<rparr>)), None)"
  using assms
  by (cases "Attempted p")
    (simp_all add: AddNewPosConnectionAttempt_def GetPeerData_def Let_def Attempted_update_id)

text \<open>
  Claim C7. \<open>NewPeerStore\<close> chooses the backend from the configuration string:
  \<open>memory\<close> gives the in-memory backend; every other string, \<open>bolt\<close> among them,
  gives the Bolt file backend, at the supplied path when that is non-empty and at the
  default path otherwise.
\<close>

theorem NewPeerStore_backend:
  "Backend (PeerStore (NewPeerStore default_db_path disk now ''memory'' path)) = Memory \<and>
   (dbtype \<noteq> ''memory'' \<longrightarrow>
      Backend (PeerStore (NewPeerStore default_db_path disk now dbtype path))
        = Bolt (if path = [] then default_db_path else path)) \<and>
   Backend (PeerStore (NewPeerStore default_db_path disk now ''bolt'' path))
        = Bolt (if path = [] then default_db_path else path)"
  by (simp add: NewPeerStore_def NewBoltPeerDB_def NewMemoryDB_def Let_def)

text \<open>
  Witness of C7: an unrecognised string with an empty path and with a path.
\<close>

theorem NewPeerStore_backend_witness:
  "''xyz'' \<noteq> ''memory'' \<and>
   Backend (PeerStore (NewPeerStore ''peerstore.db'' (\<lambda>p. Map.empty :: string \<rightharpoonup> Peer) 0 ''xyz'' ''''))
     = Bolt ''peerstore.db'' \<and>
   Backend (PeerStore (NewPeerStore ''peerstore.db'' (\<lambda>p. Map.empty :: string \<rightharpoonup> Peer) 0 ''xyz'' ''/tmp/db''))
     = Bolt ''/tmp/db''"
  using NewPeerStore_backend [of "''peerstore.db''" "\<lambda>p. Map.empty :: string \<rightharpoonup> Peer" 0 "''''" "''xyz''"]
    NewPeerStore_backend [of "''peerstore.db''" "\<lambda>p. Map.empty :: string \<rightharpoonup> Peer" 0 "''/tmp/db''" "''xyz''"]
  by simp

text \<open>
  Claim C3, as the code has it. On a peer that the store holds under its own id, a
  negative attempt returns no error and stores the record with \<open>Attempts\<close> one higher
  and \<open>Attempted\<close> set; the classified error is written only when the peer had not been
  attempted before, otherwise the earlier \<open>Error\<close> stays. The callback \<open>fn\<close> is applied
  to that record before it is stored.
\<close>

theorem neg_attempt_first_error_only:
  assumes "Load (PeerStore c) ident = Some p"
    and "PeerId (fn (p\<lparr>Attempts := Attempts p + 1, Attempted := True,
                      Error := (if Attempted p then Error p else FilterError rec_err)\<rparr>)) = ident"
  shows "snd (AddNewNegConnectionAttempt FilterError c ident rec_err fn) = None \<and>
         Load (PeerStore (fst (AddNewNegConnectionAttempt FilterError c ident rec_err fn))) ident
           = Some (fn (p\<lparr>Attempts := Attempts p + 1, Attempted := True,
                          Error := (if Attempted p then Error p else FilterError rec_err)\<rparr>))"
  using assms by (simp add: neg_present Load_StorePeer)

text \<open>
  Witness of C3: a second attempt on the example peer, whose first attempt timed out.
\<close>

theorem neg_attempt_first_error_only_witness:
  "Load (PeerStore example_store) ''P3'' = Some example_peer \<and>
   snd (AddNewNegConnectionAttempt id example_store ''P3'' ''reset-by-peer'' id) = None \<and>
   Load (PeerStore (fst (AddNewNegConnectionAttempt id example_store ''P3'' ''reset-by-peer'' id))) ''P3''
     = Some (example_peer\<lparr>Attempts := 2\<rparr>)"
proof -
  have h: "Load (PeerStore example_store) ''P3'' = Some example_peer"
    by (simp add: example_store_def Load_def)
  have g: "PeerId (id (example_peer\<lparr>Attempts := Attempts example_peer + 1, Attempted := True,
                      Error := (if Attempted example_peer then Error example_peer else id ''reset-by-peer'')\<rparr>)) = ''P3''"
    by (simp add: example_peer_def)
  show ?thesis
    using neg_attempt_first_error_only
      [where fn = id and FilterError = id and rec_err = "''reset-by-peer''", OF h g] h
    by (simp add: example_peer_def)
qed

text \<open>
  Counterexample to C3 as stated: the example peer was attempted once with a dial
  timeout; after a further negative attempt that was reset by the peer, the stored
  error is still the one of the first attempt.
\<close>

theorem neg_attempt_latest_error_counterexample:
  "map_option Error
     (Load (PeerStore (fst (AddNewNegConnectionAttempt id example_store ''P3'' ''reset-by-peer'' id))) ''P3'')
     = Some ''dial-timeout'' \<and> ''dial-timeout'' \<noteq> id ''reset-by-peer''"
  by (simp add: AddNewNegConnectionAttempt_def GetPeerData_def Load_def example_store_def
      example_peer_def StorePeer_def Store_def Let_def)

lemma word_inc_less:
  fixes x :: "64 word"
  assumes "x \<noteq> - 1"
  shows "x < x + 1"
proof -
  have "1 + x \<noteq> 0"
  proof
    assume "1 + x = 0"
    then have "x = - 1" by (simp add: add_eq_0_iff)
    with assms show False by simp
  qed
  then have "unat (1 + x) = Suc (unat x)" by (rule unatSuc)
  then show ?thesis by (simp add: word_less_nat_alt add.commute)
qed

lemma unat_count:
  fixes a :: "64 word"
  assumes "unat a + n < 2 ^ 64"
  shows "unat (a + of_nat n) = unat a + n"
proof -
  have n: "unat (of_nat n :: 64 word) = n"
    using assms by (simp add: unat_of_nat)
  have "unat a + unat (of_nat n :: 64 word) < 2 ^ LENGTH(64)"
    using assms n by simp
  then have "unat (a + of_nat n) = unat a + unat (of_nat n :: 64 word)"
    by (simp only: unat_add_lem)
  with n show ?thesis by simp
qed

lemma attempt_op_step:
  assumes "Load (PeerStore c) ident = Some p" "PeerId p = ident"
    "keeps_attempt_fields apc" "attempt_ok op"
  shows "\<exists>p'. Load (PeerStore (attempt_op FE apc ident c op)) ident = Some p' \<and> PeerId p' = ident \<and>
     Attempts p' = Attempts p + 1 \<and> Attempted p'"
proof (cases op)
  case (Neg e fn)
  with assms show ?thesis
    by (simp add: neg_present Load_StorePeer keeps_attempt_fields_def)
next
  case Pos
  with assms show ?thesis
    by (simp add: pos_present Load_StorePeer keeps_attempt_fields_def)
qed

lemma attempts_run_snoc:
  "attempts_run FE apc ident c (ops @ [op]) = attempt_op FE apc ident (attempts_run FE apc ident c ops) op"
  by (simp add: attempts_run_def)

lemma attempts_run_present:
  assumes "Load (PeerStore c) ident = Some p" "PeerId p = ident"
    "keeps_attempt_fields apc" "\<forall>op\<in>set ops. attempt_ok op"
  shows "\<exists>p'. Load (PeerStore (attempts_run FE apc ident c ops)) ident = Some p' \<and> PeerId p' = ident \<and>
     Attempts p' = Attempts p + of_nat (length ops)"
  using assms(4)
proof (induction ops rule: rev_induct)
  case Nil
  then show ?case using assms by (simp add: attempts_run_def)
next
  case (snoc op ops)
  then obtain p1 where p1: "Load (PeerStore (attempts_run FE apc ident c ops)) ident = Some p1"
    "PeerId p1 = ident" "Attempts p1 = Attempts p + of_nat (length ops)" by auto
  from snoc.prems have "attempt_ok op" by simp
  from attempt_op_step [OF p1(1) p1(2) assms(3) this, of FE] p1(3)
  show ?case by (auto simp: attempts_run_snoc)
qed

text \<open>
  Claim C6, as the code has it. Take a peer stored under its id and any sequence of
  positive and negative attempts on it, followed by one more, where the callbacks of
  the negative attempts and \<open>AddPositiveConnAttempt\<close> leave \<open>PeerId\<close>, \<open>Attempts\<close>
  and \<open>Attempted\<close> of the record alone. The counter after the sequence is the initial one
  plus the number of operations in 64-bit arithmetic, and the further operation adds
  exactly one: it grows strictly unless it stood at \<open>2 ^ 64 - 1\<close>, where it wraps to
  0, so the counter does not decrease as long as it has not run through its range.
  After every operation \<open>Attempted\<close> holds, hence \<open>Succeed\<close> implies \<open>Attempted\<close>.
\<close>

theorem attempts_count_succeed_attempted:
  assumes "Load (PeerStore c) ident = Some p" "PeerId p = ident"
    "keeps_attempt_fields apc" "\<forall>op\<in>set ops. attempt_ok op" "attempt_ok op"
  shows "\<exists>p1 p2.
     Load (PeerStore (attempts_run FE apc ident c ops)) ident = Some p1 \<and>
     Load (PeerStore (attempts_run FE apc ident c (ops @ [op]))) ident = Some p2 \<and>
     Attempts p1 = Attempts p + of_nat (length ops) \<and>
     Attempts p2 = Attempts p1 + 1 \<and>
     (Attempts p1 \<noteq> - 1 \<longrightarrow> Attempts p1 < Attempts p2) \<and>
     (unat (Attempts p) + length ops + 1 < 2 ^ 64 \<longrightarrow>
        unat (Attempts p1) = unat (Attempts p) + length ops \<and>
        unat (Attempts p2) = unat (Attempts p) + length ops + 1) \<and>
     Attempted p2 \<and> (Succeed p2 \<longrightarrow> Attempted p2)"
proof -
  from attempts_run_present [OF assms(1-4), of FE]
  obtain p1 where p1: "Load (PeerStore (attempts_run FE apc ident c ops)) ident = Some p1"
    "PeerId p1 = ident" "Attempts p1 = Attempts p + of_nat (length ops)" by auto
  from attempt_op_step [OF p1(1) p1(2) assms(3) assms(5), of FE]
  obtain p2 where p2: "Load (PeerStore (attempts_run FE apc ident c (ops @ [op]))) ident = Some p2"
    "Attempts p2 = Attempts p1 + 1" "Attempted p2" by (auto simp: attempts_run_snoc)
  have a: "Attempts p1 \<noteq> - 1 \<longrightarrow> Attempts p1 < Attempts p2"
    using p2(2) by (simp add: word_inc_less)
  have b: "unat (Attempts p) + length ops + 1 < 2 ^ 64 \<longrightarrow>
        unat (Attempts p1) = unat (Attempts p) + length ops \<and>
        unat (Attempts p2) = unat (Attempts p) + length ops + 1"
  proof
    assume n: "unat (Attempts p) + length ops + 1 < 2 ^ 64"
    then have "unat (Attempts p) + length ops < 2 ^ 64" by simp
    then have u1: "unat (Attempts p1) = unat (Attempts p) + length ops"
      unfolding p1(3) by (rule unat_count)
    have "Attempts p2 = Attempts p + of_nat (length ops + 1)"
      using p2(2) p1(3) by simp
    moreover have "unat (Attempts p + of_nat (length ops + 1)) = unat (Attempts p) + (length ops + 1)"
      using n by (intro unat_count) simp
    ultimately have "unat (Attempts p2) = unat (Attempts p) + length ops + 1" by simp
    with u1 show "unat (Attempts p1) = unat (Attempts p) + length ops \<and>
        unat (Attempts p2) = unat (Attempts p) + length ops + 1" by simp
  qed
  from p1(1,3) p2 a b show ?thesis by blast
qed

text \<open>
  Witness of C6: a negative and then a positive attempt on the example peer, whose
  counter stands at 1.
\<close>

theorem attempts_count_succeed_attempted_witness:
  "\<exists>p1 p2.
     Load (PeerStore (attempts_run id id ''P3'' example_store [Neg ''reset-by-peer'' id])) ''P3'' = Some p1 \<and>
     Load (PeerStore (attempts_run id id ''P3'' example_store ([Neg ''reset-by-peer'' id] @ [Pos]))) ''P3'' = Some p2 \<and>
     Attempts p1 = 2 \<and> Attempts p2 = 3 \<and> Attempts p1 < Attempts p2 \<and> Attempted p2"
proof -
  have h: "Load (PeerStore example_store) ''P3'' = Some example_peer"
    by (simp add: example_store_def Load_def)
  have g: "PeerId example_peer = ''P3''" by (simp add: example_peer_def)
  have k: "keeps_attempt_fields (id :: Peer \<Rightarrow> Peer)" by (simp add: keeps_attempt_fields_def)
  have a: "\<forall>op\<in>set [Neg ''reset-by-peer'' (id :: Peer \<Rightarrow> Peer)]. attempt_ok op"
    by (simp add: keeps_attempt_fields_def)
  have b: "attempt_ok (Pos :: unit attempt)" by simp
  from attempts_count_succeed_attempted [OF h g k a b, of id]
  obtain p1 p2 where p:
    "Load (PeerStore (attempts_run id id ''P3'' example_store [Neg ''reset-by-peer'' id])) ''P3'' = Some p1"
    "Load (PeerStore (attempts_run id id ''P3'' example_store ([Neg ''reset-by-peer'' id] @ [Pos]))) ''P3'' = Some p2"
    "Attempts p1 = Attempts example_peer + of_nat (length [Neg ''reset-by-peer'' (id :: Peer \<Rightarrow> Peer)])"
    "Attempts p2 = Attempts p1 + 1"
    "Attempts p1 \<noteq> - 1 \<longrightarrow> Attempts p1 < Attempts p2"
    "Attempted p2"
    by blast
  from p(3) have v1: "Attempts p1 = 2" by (simp add: example_peer_def)
  with p(4) have v2: "Attempts p2 = 3" by simp
  from v1 p(5) have "Attempts p1 < Attempts p2" by simp
  with p(1,2,6) v1 v2 show ?thesis by blast
qed

text \<open>
  Counterexample to C6 as stated. A callback may write any field of the record: after
  a positive attempt has brought the counter of the example peer to 2, a negative
  attempt whose callback resets the record stores the counter 0 with \<open>Succeed\<close> set
  and \<open>Attempted\<close> cleared. And on a counter that stands at \<open>2 ^ 64 - 1\<close> a positive
  attempt with a callback that changes nothing stores the counter 0.
\<close>

theorem attempts_reset_or_wrap_counterexample:
  "map_option Attempts
     (Load (PeerStore (attempts_run id id ''P3'' example_store [Pos])) ''P3'') = Some 2 \<and>
   map_option Attempts
     (Load (PeerStore (attempts_run id id ''P3'' example_store
        [Pos, Neg ''reset-by-peer'' example_prune])) ''P3'') = Some 0 \<and>
   map_option Succeed
     (Load (PeerStore (attempts_run id id ''P3'' example_store
        [Pos, Neg ''reset-by-peer'' example_prune])) ''P3'') = Some True \<and>
   map_option Attempted
     (Load (PeerStore (attempts_run id id ''P3'' example_store
        [Pos, Neg ''reset-by-peer'' example_prune])) ''P3'') = Some False \<and>
   map_option Attempts
     (Load (PeerStore (attempts_run id id ''P3''
        (StorePeer example_store (example_peer\<lparr>Attempts := - 1\<rparr>)) [Pos])) ''P3'') = Some 0"
  by (simp add: attempts_run_def AddNewNegConnectionAttempt_def AddNewPosConnectionAttempt_def
      GetPeerData_def Load_def example_store_def example_peer_def example_prune_def
      StorePeer_def Store_def Let_def)

text \<open>
  Claim C10. For a peer id that the store does not hold, each per-peer event
  operation returns an error and the store it leaves is the store it was given.
\<close>

theorem absent_peer_events_fail:
  assumes "Load (PeerStore c) peerId = None"
  shows "ConnectionEvent ce now c peerId direction =
           (c, Some (''could not add connection event, peer is not in the list: '' @ peerId)) \<and>
         DisconnectionEvent de now c peerId =
           (c, Some (''could not add disconnection event, peer is not in the list: '' @ peerId)) \<and>
         MetadataEvent c peerId success =
           (c, Some (''could not add metadata event, peer is not in the list: '' @ peerId)) \<and>
         MessageEvent me now c peerId topicName =
           (c, Some (''could not add message event, peer is not in the list: '' @ peerId)) \<and>
         ConnectionAttemptEvent cae c peerId succeed conErr =
           (c, Some (''could not add connection attempt, peer is not in the list: '' @ peerId)) \<and>
         AddNewPosConnectionAttempt apc c peerId =
           (c, Some (''Not peer found with that ID '' @ peerId)) \<and>
         AddNewNegConnectionAttempt FilterError c peerId rec_err fn =
           (c, Some (''Not peer found with that ID '' @ peerId))"
  using assms
  by (simp add: ConnectionEvent_def DisconnectionEvent_def MetadataEvent_def
      MessageEvent_def ConnectionAttemptEvent_def AddNewPosConnectionAttempt_def
      AddNewNegConnectionAttempt_def GetPeerData_def)

text \<open>
  Witness of C10: the id \<open>P9\<close> is not in the example store.
\<close>

theorem absent_peer_events_fail_witness:
  "Load (PeerStore example_store) ''P9'' = None \<and>
   ConnectionEvent (\<lambda>d t p. p) 0 example_store ''P9'' ''inbound'' =
     (example_store, Some ''could not add connection event, peer is not in the list: P9'') \<and>
   MetadataEvent example_store ''P9'' True =
     (example_store, Some ''could not add metadata event, peer is not in the list: P9'') \<and>
   AddNewNegConnectionAttempt id example_store ''P9'' ''reset-by-peer'' id =
     (example_store, Some ''Not peer found with that ID P9'')"
proof -
  have h: "Load (PeerStore example_store) ''P9'' = None"
    by (simp add: example_store_def Load_def)
  show ?thesis
    using absent_peer_events_fail [OF h, of "\<lambda>d t p. p" 0 "''inbound''" _ True _ _ _ _ _ _ id "''reset-by-peer''" id] h
    by simp
qed

section \<open>Properties of the discovery feed\<close>

text \<open>
  Claim C9. Blacklisting is idempotent: a second \<open>Blacklist\<close> of the same id leaves
  the state of the first, so \<open>isBlacklisted\<close> answers alike for every id, and the id
  is blacklisted.
\<close>

theorem Blacklist_idempotent:
  "Blacklist (Blacklist d p) p = Blacklist d p \<and>
   isBlacklisted (Blacklist (Blacklist d p) p) q = isBlacklisted (Blacklist d p) q \<and>
   isBlacklisted (Blacklist d p) p"
  by (simp add: Blacklist_def isBlacklisted_def)

lemma refreshPeerList_loop_filter:
  "refreshPeerList_loop dbs peers arr = arr @ filter (\<lambda>p. LoadFilecoinPeer dbs p \<noteq> None) peers"
  by (induction peers arbitrary: arr) (auto split: option.splits)

lemma refreshPeerList_append:
  "refreshPeerList d = d\<lparr>pArray := pArray d @ GetFilecoinPeers (db d)\<rparr>"
proof -
  have "filter (\<lambda>p. LoadFilecoinPeer (db d) p \<noteq> None) (map fst (db d)) = map fst (db d)"
    by (rule filter_True) (auto simp: LoadFilecoinPeer_def map_of_eq_None_iff)
  then show ?thesis
    by (simp add: refreshPeerList_def refreshPeerList_loop_filter GetFilecoinPeers_def)
qed

text \<open>
  Claim C2, as the code has it. A request on an empty array waits \<open>minWaitTime\<close>,
  five seconds, issues one more request, sets \<open>refreshFlag\<close> and refreshes. A request
  whose entry under the cursor is not blacklisted emits that entry, advances the cursor
  and refreshes exactly when \<open>refreshFlag\<close> is set or the cursor has reached the end.
  A refresh appends the id of every peer of the database to the array: earlier entries
  stay, and blacklisted ids are appended like the others.
\<close>

theorem feed_request_refresh:
  "(pArray s = [] \<longrightarrow>
      Run_nPeerReq s =
        Inr (s\<lparr>pArray := GetFilecoinPeers (db s), nPeerReq := nPeerReq s + 1,
               refreshFlag := True, slept := slept s + minWaitTime\<rparr>)) \<and>
   (pointer s < length (pArray s) \<and> \<not> isBlacklisted s (pArray s ! pointer s) \<longrightarrow>
      Run_nPeerReq s =
        Inr (s\<lparr>pArray := (if refreshFlag s \<or> length (pArray s) \<le> pointer s + 1
                           then pArray s @ GetFilecoinPeers (db s) else pArray s),
               nPeerChan := nPeerChan s @ [pArray s ! pointer s],
               pointer := pointer s + 1\<rparr>)) \<and>
   minWaitTime = 5 * 1000000000"
  by (auto simp: Run_nPeerReq_def Run_refresh_def refreshPeerList_append nPeerReq_send_def
      isBlacklisted_def Let_def minWaitTime_def Second_def)

text \<open>
  Witness of C2: the example feed with its one entry, and the same feed with an
  empty array.
\<close>

theorem feed_request_refresh_witness:
  "pointer example_crawl < length (pArray example_crawl) \<and>
   \<not> isBlacklisted example_crawl (pArray example_crawl ! pointer example_crawl) \<and>
   Run_nPeerReq example_crawl =
     Inr (example_crawl\<lparr>pArray := [''P1'', ''P1'', ''P2''], nPeerChan := [''P1''], pointer := 1\<rparr>) \<and>
   pArray (example_crawl\<lparr>pArray := []\<rparr>) = [] \<and>
   Run_nPeerReq (example_crawl\<lparr>pArray := []\<rparr>) =
     Inr (example_crawl\<lparr>pArray := [''P1'', ''P2''], nPeerReq := 1, refreshFlag := True,
            slept := 5000000000\<rparr>)"
  using feed_request_refresh [of example_crawl] feed_request_refresh [of "example_crawl\<lparr>pArray := []\<rparr>"]
  by (simp add: example_crawl_def isBlacklisted_def GetFilecoinPeers_def minWaitTime_def Second_def)

text \<open>
  Counterexample to C2 as stated: the cursor reaches the end of the one-entry array,
  and the refresh leaves an array in which \<open>P1\<close> occurs twice.
\<close>

theorem feed_refresh_duplicates_counterexample:
  "Run_nPeerReq example_crawl =
     Inr (example_crawl\<lparr>pArray := [''P1'', ''P1'', ''P2''], nPeerChan := [''P1''], pointer := 1\<rparr>) \<and>
   \<not> distinct [''P1'', ''P1'', ''P2'']"
  by (simp add: Run_nPeerReq_def Run_refresh_def refreshPeerList_append example_crawl_def
      isBlacklisted_def GetFilecoinPeers_def Let_def)

text \<open>
  The two parts of the request arm, run one after the other from the select, are the
  arm.
\<close>

lemma Run_nPeerReq_split:
  assumes "pending s = None"
  shows "Run_nPeerReq s = (case Run_test s of Inl msg \<Rightarrow> Inl msg | Inr s1 \<Rightarrow> Inr (Run_send s1))"
  using assms
  by (simp add: Run_nPeerReq_def Run_test_def Run_send_def Run_refresh_def refreshPeerList_def
      nPeerReq_send_def Let_def)

text \<open>
  On an open channel \<open>ReqNextPeer\<close> is the plain send that the request arm uses, and
  an execution runs the request arm only while the channels are open.
\<close>

lemma ReqNextPeer_open: "\<not> closed d \<Longrightarrow> ReqNextPeer d = Inr (nPeerReq_send d)"
  by (simp add: ReqNextPeer_def)

lemma FeedTest_closed: "closed s \<Longrightarrow> step s FeedTest = Inr s"
  by simp

lemma Run_test_keeps:
  assumes "Run_test s = Inr s'" "isBlacklisted s p" "pending s \<noteq> Some p"
  shows "nPeerChan s' = nPeerChan s \<and> isBlacklisted s' p \<and> pending s' \<noteq> Some p"
  using assms
  by (auto simp: Run_test_def Run_refresh_def refreshPeerList_def nPeerReq_send_def
      isBlacklisted_def Let_def split: if_splits)

lemma Run_test_pending:
  assumes "Run_test s = Inr s'" "pending s = None" "pending s' = Some q"
  shows "\<not> isBlacklisted s q"
  using assms
  by (auto simp: Run_test_def Run_refresh_def refreshPeerList_def nPeerReq_send_def
      isBlacklisted_def Let_def split: if_splits)

lemma Run_send_emits:
  "nPeerChan (Run_send s) = nPeerChan s @ (case pending s of None \<Rightarrow> [] | Some q \<Rightarrow> [q]) \<and>
   blacklist (Run_send s) = blacklist s \<and> pending (Run_send s) = None"
  by (simp add: Run_send_def Run_refresh_def refreshPeerList_def split: option.splits)

lemma worker_keeps_feed:
  "nPeerChan (fst (crawlNetwork_worker env s pid)) = nPeerChan s \<and>
   pending (fst (crawlNetwork_worker env s pid)) = pending s \<and>
   (blacklist s p \<noteq> None \<longrightarrow> blacklist (fst (crawlNetwork_worker env s pid)) p \<noteq> None)"
  by (auto simp: crawlNetwork_worker_def worker_request_def ReqNextPeer_def nPeerReq_send_def
      Blacklist_def Let_def split: option.splits)

lemma step_keeps:
  assumes "step s e = Inr s'" "isBlacklisted s p" "pending s \<noteq> Some p"
  shows "\<exists>out. nPeerChan s' = nPeerChan s @ out \<and> p \<notin> set out \<and>
     isBlacklisted s' p \<and> pending s' \<noteq> Some p"
proof (cases e)
  case FeedTest
  show ?thesis
  proof (cases "closed s \<or> pending s \<noteq> None \<or> nPeerReq s = 0")
    case True
    with FeedTest assms show ?thesis by auto
  next
    case False
    with FeedTest assms(1) have "Run_test (s\<lparr>nPeerReq := nPeerReq s - 1\<rparr>) = Inr s'" by simp
    from Run_test_keeps [OF this, of p] assms(2,3) show ?thesis
      by (simp add: isBlacklisted_def)
  qed
next
  case FeedSend
  with assms(1) have "s' = Run_send s" by simp
  with Run_send_emits [of s] assms(2,3) show ?thesis
    by (auto simp: isBlacklisted_def split: option.splits)
next
  case (WorkerIteration env pid)
  with assms(1) have "s' = fst (crawlNetwork_worker env s pid)"
    by (auto split: prod.splits option.splits)
  with worker_keeps_feed [of env s pid p] assms(2,3) show ?thesis
    by (auto simp: isBlacklisted_def split: option.splits)
qed (use assms in \<open>auto simp: Run_ctxDone_def ReqNextPeer_def nPeerReq_send_def Blacklist_def
      isBlacklisted_def split: if_splits\<close>)

lemma exec_keeps:
  assumes "exec s evs = Inr s'" and "isBlacklisted s p" and "pending s \<noteq> Some p"
  shows "\<exists>out. nPeerChan s' = nPeerChan s @ out \<and> p \<notin> set out \<and>
     isBlacklisted s' p \<and> pending s' \<noteq> Some p"
  using assms
proof (induction evs arbitrary: s)
  case Nil
  then show ?case by simp
next
  case (Cons e evs)
  then obtain s1 where s1: "step s e = Inr s1" "exec s1 evs = Inr s'"
    by (auto split: sum.splits)
  from step_keeps [OF s1(1) Cons.prems(2,3)]
  obtain o1 where o1: "nPeerChan s1 = nPeerChan s @ o1" "p \<notin> set o1" "isBlacklisted s1 p"
    "pending s1 \<noteq> Some p" by auto
  from Cons.IH [OF s1(2) o1(3,4)]
  obtain o2 where "nPeerChan s' = nPeerChan s1 @ o2" "p \<notin> set o2" "isBlacklisted s' p"
    "pending s' \<noteq> Some p" by auto
  with o1 show ?case by auto
qed

text \<open>
  Claim C4, as the code has it. The feed tests an id against the blacklist and then
  sends it, and other goroutines run in between. Every id that the feed sends is the
  one it had tested just before, and it was not blacklisted when it was tested. So in
  every execution that starts when \<open>Blacklist p\<close> has returned and the feed is not
  between its test of \<open>p\<close> and the send, what is sent on the output channel extends
  what had been sent before by ids other than \<open>p\<close>, and \<open>p\<close> stays blacklisted.
\<close>

theorem blacklisted_not_sent_after_test:
  assumes "exec (Blacklist s p) evs = Inr s'" and "pending s \<noteq> Some p"
  shows "(\<exists>out. nPeerChan s' = nPeerChan s @ out \<and> p \<notin> set out) \<and> isBlacklisted s' p \<and>
         (\<forall>e s2. step s' e = Inr s2 \<longrightarrow>
            nPeerChan s2 = nPeerChan s' @
              (if e = FeedSend then (case pending s' of None \<Rightarrow> [] | Some q \<Rightarrow> [q]) else [])) \<and>
         (\<forall>s2 q. pending s' = None \<and> step s' FeedTest = Inr s2 \<and> pending s2 = Some q \<longrightarrow>
            \<not> isBlacklisted s' q)"
proof -
  have "isBlacklisted (Blacklist s p) p" "pending (Blacklist s p) \<noteq> Some p"
    using assms(2) by (simp_all add: Blacklist_def isBlacklisted_def)
  from exec_keeps [OF assms(1) this]
  have a: "(\<exists>out. nPeerChan s' = nPeerChan s @ out \<and> p \<notin> set out) \<and> isBlacklisted s' p"
    by (auto simp: Blacklist_def)
  have b: "\<forall>e s2. step s' e = Inr s2 \<longrightarrow>
            nPeerChan s2 = nPeerChan s' @
              (if e = FeedSend then (case pending s' of None \<Rightarrow> [] | Some q \<Rightarrow> [q]) else [])"
  proof (intro allI impI)
    fix e s2
    assume st: "step s' e = Inr s2"
    show "nPeerChan s2 = nPeerChan s' @
              (if e = FeedSend then (case pending s' of None \<Rightarrow> [] | Some q \<Rightarrow> [q]) else [])"
    proof (cases e)
      case FeedTest
      with st show ?thesis
        by (auto simp: Run_test_def Run_refresh_def refreshPeerList_def nPeerReq_send_def
            Let_def split: if_splits)
    next
      case FeedSend
      with st Run_send_emits [of s'] show ?thesis by auto
    next
      case (WorkerIteration env pid)
      with st have "s2 = fst (crawlNetwork_worker env s' pid)"
        by (auto split: prod.splits option.splits)
      with worker_keeps_feed [of env s' pid] WorkerIteration show ?thesis by simp
    qed (use st in \<open>auto simp: Run_ctxDone_def ReqNextPeer_def nPeerReq_send_def Blacklist_def
          split: if_splits\<close>)
  qed
  have c: "\<forall>s2 q. pending s' = None \<and> step s' FeedTest = Inr s2 \<and> pending s2 = Some q \<longrightarrow>
            \<not> isBlacklisted s' q"
  proof (intro allI impI)
    fix s2 q
    assume h: "pending s' = None \<and> step s' FeedTest = Inr s2 \<and> pending s2 = Some q"
    then have en: "\<not> (closed s' \<or> pending s' \<noteq> None \<or> nPeerReq s' = 0)"
      by (auto split: if_splits)
    with h have "Run_test (s'\<lparr>nPeerReq := nPeerReq s' - 1\<rparr>) = Inr s2"
      by (auto split: if_splits)
    from Run_test_pending [OF this, of q] h show "\<not> isBlacklisted s' q"
      by (simp add: isBlacklisted_def)
  qed
  from a b c show ?thesis by blast
qed

text \<open>
  Witness of C4: \<open>P2\<close> is blacklisted, then three requests are served; the feed
  emits \<open>P1\<close> twice and skips \<open>P2\<close>.
\<close>

theorem blacklisted_not_sent_after_test_witness:
  "pending example_crawl \<noteq> Some ''P2'' \<and>
   exec (Blacklist example_crawl ''P2'')
       [WorkerReq, FeedTest, FeedSend, WorkerReq, FeedTest, FeedSend, WorkerReq, FeedTest,
        FeedSend]
     = Inr (example_crawl\<lparr>pArray := [''P1'', ''P1'', ''P2''], blacklist := [''P2'' \<mapsto> ()],
            nPeerChan := [''P1'', ''P1''], nPeerReq := 1, pointer := 3\<rparr>) \<and>
   (\<exists>out. nPeerChan (example_crawl\<lparr>pArray := [''P1'', ''P1'', ''P2''],
            blacklist := [''P2'' \<mapsto> ()], nPeerChan := [''P1'', ''P1''], nPeerReq := 1,
            pointer := 3\<rparr>)
        = nPeerChan example_crawl @ out \<and> ''P2'' \<notin> set out)"
proof -
  have g: "pending example_crawl \<noteq> Some ''P2''" by (simp add: example_crawl_def)
  have h: "exec (Blacklist example_crawl ''P2'')
       [WorkerReq, FeedTest, FeedSend, WorkerReq, FeedTest, FeedSend, WorkerReq, FeedTest,
        FeedSend]
     = Inr (example_crawl\<lparr>pArray := [''P1'', ''P1'', ''P2''], blacklist := [''P2'' \<mapsto> ()],
            nPeerChan := [''P1'', ''P1''], nPeerReq := 1, pointer := 3\<rparr>)"
    by (simp add: example_crawl_def Blacklist_def ReqNextPeer_def nPeerReq_send_def Run_test_def
        Run_send_def Run_refresh_def refreshPeerList_append GetFilecoinPeers_def
        isBlacklisted_def Let_def)
  from blacklisted_not_sent_after_test [OF h g] g h show ?thesis by blast
qed

text \<open>
  Counterexample to C4 as stated. The feed emits \<open>P1\<close> and refreshes, which lists
  \<open>P1\<close> again; on the next request it tests \<open>P1\<close>, which is not blacklisted. Before
  it sends, the worker that dials \<open>P1\<close> fails and blacklists it. The send that follows
  puts \<open>P1\<close> on the output channel although \<open>Blacklist\<close> has returned.
\<close>

theorem blacklisted_sent_after_race_counterexample:
  "exec example_crawl
       [WorkerReq, FeedTest, FeedSend, WorkerReq, FeedTest, WorkerIteration example_env ''P1'']
     = Inr (example_crawl\<lparr>pArray := [''P1'', ''P1'', ''P2''], blacklist := [''P1'' \<mapsto> ()],
            nPeerChan := [''P1''], nPeerReq := 1, pointer := 2, pending := Some ''P1'',
            connects := [\<lparr>ID = ''P1'', Addrs = [''/ip4/10.0.0.1/tcp/1347'']\<rparr>]\<rparr>) \<and>
   isBlacklisted (example_crawl\<lparr>pArray := [''P1'', ''P1'', ''P2''], blacklist := [''P1'' \<mapsto> ()],
            nPeerChan := [''P1''], nPeerReq := 1, pointer := 2, pending := Some ''P1'',
            connects := [\<lparr>ID = ''P1'', Addrs = [''/ip4/10.0.0.1/tcp/1347'']\<rparr>]\<rparr>) ''P1'' \<and>
   exec (example_crawl\<lparr>pArray := [''P1'', ''P1'', ''P2''], blacklist := [''P1'' \<mapsto> ()],
            nPeerChan := [''P1''], nPeerReq := 1, pointer := 2, pending := Some ''P1'',
            connects := [\<lparr>ID = ''P1'', Addrs = [''/ip4/10.0.0.1/tcp/1347'']\<rparr>]\<rparr>) [FeedSend]
     = Inr (example_crawl\<lparr>pArray := [''P1'', ''P1'', ''P2''], blacklist := [''P1'' \<mapsto> ()],
            nPeerChan := [''P1'', ''P1''], nPeerReq := 1, pointer := 2,
            connects := [\<lparr>ID = ''P1'', Addrs = [''/ip4/10.0.0.1/tcp/1347'']\<rparr>]\<rparr>)"
  by (simp add: example_crawl_def example_env_def crawlNetwork_worker_def worker_request_def
      LoadFilecoinPeer_def Blacklist_def ReqNextPeer_def nPeerReq_send_def Run_test_def
      Run_send_def Run_refresh_def refreshPeerList_append GetFilecoinPeers_def
      isBlacklisted_def Let_def)

text \<open>
  When the last entry of the array is blacklisted the request arm leaves before the
  refresh test, and the next request reads the array out of range.
\<close>

lemma feed_blacklisted_last_entry_panics:
  "exec (Blacklist example_crawl ''P1'') [WorkerReq, WorkerReq, FeedTest, FeedTest]
     = Inl ''index out of range''"
  by (simp add: example_crawl_def Blacklist_def ReqNextPeer_def nPeerReq_send_def Run_test_def
      isBlacklisted_def Let_def)

section \<open>Properties of the workers\<close>

text \<open>
  When the peer loaded for the received id has no multi-address (or the database does
  not hold it, which loads the zero peer), the iteration makes no call of
  \<open>Host.Connect\<close>: it sleeps one second and calls \<open>ReqNextPeer\<close>. While the request
  channel is open that call adds a token; once the feed has closed the channel it
  panics.
\<close>

lemma worker_no_addrs_no_dial:
  assumes "\<forall>q. LoadFilecoinPeer (db s) pid = Some q \<longrightarrow> MAddrs q = []"
  shows "connects (fst (crawlNetwork_worker env s pid)) = connects s \<and>
         slept (fst (crawlNetwork_worker env s pid)) = slept s + Second \<and>
         blacklist (fst (crawlNetwork_worker env s pid)) = blacklist s \<and>
         db (fst (crawlNetwork_worker env s pid)) = db s \<and>
         (\<not> closed s \<longrightarrow>
            crawlNetwork_worker env s pid
              = (s\<lparr>slept := slept s + Second, nPeerReq := nPeerReq s + 1\<rparr>, None)) \<and>
         (closed s \<longrightarrow>
            crawlNetwork_worker env s pid
              = (s\<lparr>slept := slept s + Second\<rparr>, Some ''send on closed channel''))"
  using assms
  by (cases "LoadFilecoinPeer (db s) pid")
    (simp_all add: crawlNetwork_worker_def worker_request_def ReqNextPeer_def nPeerReq_send_def)

text \<open>
  Claim C8, at the input where the code fails it. The context is cancelled and the
  feed takes its shutdown arm, which closes the request channel. A worker that then
  handles an id without addresses (\<open>P2\<close>, or the empty id that the closed output
  channel gives) dials nobody and sleeps its second, but its \<open>ReqNextPeer\<close> panics:
  the request is not issued and the worker does not continue.
\<close>

theorem worker_no_addrs_panics_after_shutdown:
  "exec example_crawl [Cancel, FeedDone]
     = Inr (example_crawl\<lparr>closed := True, ctxDone := True\<rparr>) \<and>
   crawlNetwork_worker example_env (example_crawl\<lparr>closed := True, ctxDone := True\<rparr>) ''P2''
     = (example_crawl\<lparr>closed := True, ctxDone := True, slept := 1000000000\<rparr>,
        Some ''send on closed channel'') \<and>
   crawlNetwork_worker example_env (example_crawl\<lparr>closed := True, ctxDone := True\<rparr>) ''''
     = (example_crawl\<lparr>closed := True, ctxDone := True, slept := 1000000000\<rparr>,
        Some ''send on closed channel'') \<and>
   exec example_crawl [Cancel, FeedDone, WorkerIteration example_env ''P2'']
     = Inl ''send on closed channel''"
  by (simp add: example_crawl_def example_env_def crawlNetwork_worker_def worker_request_def
      LoadFilecoinPeer_def ReqNextPeer_def Run_ctxDone_def Second_def)

text \<open>
  Claim C1, as the code has it. Whenever \<open>Host.Connect\<close> returns an error, whatever
  its kind, the worker blacklists the peer and leaves the database as it is: no attempt
  is recorded. This is the state in which the iteration ends.
\<close>

theorem worker_connect_error_blacklists:
  assumes "LoadFilecoinPeer (db s) pid = Some q" and "MAddrs q \<noteq> []"
    and "Connect env \<lparr>ID = Decode env pid, Addrs = MAddrs q\<rparr> = Some err"
  shows "isBlacklisted (fst (crawlNetwork_worker env s pid)) pid \<and>
         db (fst (crawlNetwork_worker env s pid)) = db s \<and>
         connects (fst (crawlNetwork_worker env s pid))
           = connects s @ [\<lparr>ID = Decode env pid, Addrs = MAddrs q\<rparr>]"
  using assms
  by (cases "closed s")
    (simp_all add: crawlNetwork_worker_def worker_request_def ReqNextPeer_def nPeerReq_send_def
      Blacklist_def isBlacklisted_def)

text \<open>
  Witness of C1: dialling \<open>P1\<close> in the example environment fails.
\<close>

theorem worker_connect_error_blacklists_witness:
  "LoadFilecoinPeer (db example_crawl) ''P1''
     = Some \<lparr>FPeerId = ''P1'', MAddrs = [''/ip4/10.0.0.1/tcp/1347'']\<rparr> \<and>
   isBlacklisted (fst (crawlNetwork_worker example_env example_crawl ''P1'')) ''P1'' \<and>
   connects (fst (crawlNetwork_worker example_env example_crawl ''P1''))
     = [\<lparr>ID = ''P1'', Addrs = [''/ip4/10.0.0.1/tcp/1347'']\<rparr>]"
proof -
  have h: "LoadFilecoinPeer (db example_crawl) ''P1''
     = Some \<lparr>FPeerId = ''P1'', MAddrs = [''/ip4/10.0.0.1/tcp/1347'']\<rparr>"
    by (simp add: example_crawl_def LoadFilecoinPeer_def)
  have g: "MAddrs \<lparr>FPeerId = ''P1'', MAddrs = [''/ip4/10.0.0.1/tcp/1347'']\<rparr> \<noteq> []" by simp
  have k: "Connect example_env \<lparr>ID = Decode example_env ''P1'',
       Addrs = MAddrs \<lparr>FPeerId = ''P1'', MAddrs = [''/ip4/10.0.0.1/tcp/1347'']\<rparr>\<rparr> = Some ''dial-timeout''"
    by (simp add: example_env_def)
  have c: "connects example_crawl = [] \<and> Decode example_env ''P1'' = ''P1''"
    by (simp add: example_crawl_def example_env_def)
  show ?thesis
    using worker_connect_error_blacklists [OF h g k] h c
    by simp
qed

text \<open>
  Counterexample to C1 as stated: \<open>Host.Connect\<close> fails with a dial timeout, a
  transient kind, on a peer that was not blacklisted; after the iteration the peer is
  blacklisted and the database holds what it held.
\<close>

theorem transient_error_blacklisted_counterexample:
  "Connect example_env \<lparr>ID = ''P1'', Addrs = [''/ip4/10.0.0.1/tcp/1347'']\<rparr> = Some ''dial-timeout'' \<and>
   \<not> isBlacklisted example_crawl ''P1'' \<and>
   isBlacklisted (fst (crawlNetwork_worker example_env example_crawl ''P1'')) ''P1'' \<and>
   db (fst (crawlNetwork_worker example_env example_crawl ''P1'')) = db example_crawl"
  by (simp add: crawlNetwork_worker_def worker_request_def example_env_def example_crawl_def
      LoadFilecoinPeer_def ReqNextPeer_def nPeerReq_send_def Blacklist_def isBlacklisted_def)

section \<open>Properties of the message id\<close>

lemma length_encodeURL: "length encodeURL = 64"
  by (simp add: encodeURL_def)

lemma distinct_encodeURL: "distinct encodeURL"
  by (simp add: encodeURL_def)

lemma enc_eq_iff: "enc a = enc b \<longleftrightarrow> a mod 64 = b mod 64"
  unfolding enc_def
  by (rule nth_eq_iff_index_eq [OF distinct_encodeURL]) (simp_all add: length_encodeURL)

lemma pad_not_in_alphabet: "StdPadding \<notin> set encodeURL"
  by (simp add: encodeURL_def StdPadding_def)

lemma enc_in_alphabet: "enc v \<in> set encodeURL"
  unfolding enc_def by (rule nth_mem) (simp add: length_encodeURL)

lemma enc_not_pad: "enc a \<noteq> StdPadding" "StdPadding \<noteq> enc a"
  using pad_not_in_alphabet enc_in_alphabet [of a] by auto

lemma split64:
  assumes "(x::nat) div 64 = y div 64" "x mod 64 = y mod 64"
  shows "x = y"
proof -
  have "x = x div 64 * 64 + x mod 64" by simp
  also have "\<dots> = y div 64 * 64 + y mod 64" using assms by simp
  also have "\<dots> = y" by simp
  finally show ?thesis .
qed

lemma div_4096: "(x::nat) div 4096 = x div 64 div 64"
  using div_mult2_eq [of x 64 64] by simp

lemma div_262144: "(x::nat) div 262144 = x div 64 div 64 div 64"
  using div_mult2_eq [of x 4096 64] by (simp add: div_4096)

lemma quad_inj:
  fixes x y :: nat
  assumes "x < 16777216" "y < 16777216"
    "x div 262144 mod 64 = y div 262144 mod 64"
    "x div 4096 mod 64 = y div 4096 mod 64"
    "x div 64 mod 64 = y div 64 mod 64"
    "x mod 64 = y mod 64"
  shows "x = y"
proof -
  have "x div 262144 < 64" "y div 262144 < 64"
    using assms(1,2) by (simp_all add: div_less_iff_less_mult)
  with assms(3) have a: "x div 64 div 64 div 64 = y div 64 div 64 div 64"
    by (simp add: div_262144)
  from assms(4) have b: "x div 64 div 64 mod 64 = y div 64 div 64 mod 64"
    by (simp add: div_4096)
  from a b have "x div 64 div 64 = y div 64 div 64" by (rule split64)
  from this assms(5) have "x div 64 = y div 64" by (rule split64)
  from this assms(6) show ?thesis by (rule split64)
qed


lemma base_split:
  fixes a r a' r' B :: nat
  assumes "r < B" "r' < B" "a * B + r = a' * B + r'"
  shows "a = a' \<and> r = r'"
proof -
  have "(a * B + r) div B = a" "(a' * B + r') div B = a'" using assms(1,2) by simp_all
  with assms(3) have "a = a'" by simp
  with assms(3) show ?thesis by simp
qed

lemma triple_inj:
  fixes a b c a' b' c' :: nat
  assumes "b < 256" "c < 256" "b' < 256" "c' < 256"
    "a * 65536 + b * 256 + c = a' * 65536 + b' * 256 + c'"
  shows "a = a' \<and> b = b' \<and> c = c'"
proof -
  have "b * 256 + c < 65536" "b' * 256 + c' < 65536" using assms(1-4) by simp_all
  moreover have "a * 65536 + (b * 256 + c) = a' * 65536 + (b' * 256 + c')"
    using assms(5) by simp
  ultimately have "a = a' \<and> b * 256 + c = b' * 256 + c'" by (rule base_split)
  moreover from this base_split [OF assms(2) assms(4), of b b'] have "b = b' \<and> c = c'" by simp
  ultimately show ?thesis by simp
qed

lemma low_digit_0: "((a::nat) * 65536 + b * 256) mod 64 = 0"
proof -
  have "a * 65536 + b * 256 = (a * 1024 + b * 4) * 64" by simp
  then show ?thesis by (simp only: mod_mult_self2_is_0)
qed

lemma mid_digit_0: "((a::nat) * 65536) div 64 mod 64 = 0"
proof -
  have e: "a * 65536 = (a * 1024) * 64" by simp
  have "a * 65536 div 64 = a * 1024" by (subst e) simp
  moreover have "a * 1024 = (a * 16) * 64" by simp
  ultimately show ?thesis by (simp only: mod_mult_self2_is_0)
qed

lemma unat_byte: "unat (a::byte) < 256"
  using unsigned_less [of a, where 'a = nat] by simp

lemma val3_bound: "val3 a b c < 16777216"
  using unat_byte [of a] unat_byte [of b] unat_byte [of c] by (simp add: val3_def)

lemma val3_inj:
  assumes "val3 a b c = val3 a' b' c'"
  shows "a = a' \<and> b = b' \<and> c = c'"
proof -
  have "unat a * 65536 + unat b * 256 + unat c = unat a' * 65536 + unat b' * 256 + unat c'"
    using assms by (simp only: val3_def)
  from triple_inj [OF unat_byte unat_byte unat_byte unat_byte this]
  have "unat a = unat a'" "unat b = unat b'" "unat c = unat c'" by blast+
  then show ?thesis by (blast intro: unsigned_word_eqI)
qed

lemma quad_val3:
  assumes "enc (val3 a b c div 262144) = enc (val3 a' b' c' div 262144)"
    "enc (val3 a b c div 4096) = enc (val3 a' b' c' div 4096)"
    "val3 a b c div 64 mod 64 = val3 a' b' c' div 64 mod 64"
    "val3 a b c mod 64 = val3 a' b' c' mod 64"
  shows "a = a' \<and> b = b' \<and> c = c'"
proof -
  have "val3 a b c div 262144 mod 64 = val3 a' b' c' div 262144 mod 64"
    "val3 a b c div 4096 mod 64 = val3 a' b' c' div 4096 mod 64"
    using assms(1,2) by (simp_all only: enc_eq_iff)
  with val3_bound val3_bound have "val3 a b c = val3 a' b' c'"
    using assms(3,4) by (rule quad_inj)
  then show ?thesis by (rule val3_inj)
qed

lemma val3_0: "val3 a b 0 = unat a * 65536 + unat b * 256"
  "val3 a 0 0 = unat a * 65536"
  by (simp_all add: val3_def)

lemma val3_3: "unat a * 65536 + unat b * 256 + unat c = val3 a b c"
  by (simp add: val3_def)

lemma EncodeToString_inj: "EncodeToString xs = EncodeToString ys \<Longrightarrow> xs = ys"
proof (induction xs arbitrary: ys rule: EncodeToString.induct)
  case 1
  then show ?case by (cases ys rule: EncodeToString.cases) (simp_all add: Let_def)
next
  case (2 b0)
  show ?case
  proof (cases ys rule: EncodeToString.cases)
    case (2 c0)
    with "2.prems" have e: "enc (val3 b0 0 0 div 262144) = enc (val3 c0 0 0 div 262144)"
      "enc (val3 b0 0 0 div 4096) = enc (val3 c0 0 0 div 4096)"
      by (simp_all add: Let_def val3_0)
    have "b0 = c0 \<and> (0::byte) = 0 \<and> (0::byte) = 0"
      using e by (rule quad_val3) (simp_all add: val3_0 mid_digit_0 low_digit_0 [of _ 0, simplified])
    with 2 show ?thesis by simp
  qed (use "2.prems" in \<open>simp_all add: Let_def enc_not_pad\<close>)
next
  case (3 b0 b1)
  show ?case
  proof (cases ys rule: EncodeToString.cases)
    case (3 c0 c1)
    with "3.prems" have e: "enc (val3 b0 b1 0 div 262144) = enc (val3 c0 c1 0 div 262144)"
      "enc (val3 b0 b1 0 div 4096) = enc (val3 c0 c1 0 div 4096)"
      "enc (val3 b0 b1 0 div 64) = enc (val3 c0 c1 0 div 64)"
      by (simp_all add: Let_def val3_0)
    have "b0 = c0 \<and> b1 = c1 \<and> (0::byte) = 0"
      using e(1,2)
    proof (rule quad_val3)
      show "val3 b0 b1 0 div 64 mod 64 = val3 c0 c1 0 div 64 mod 64"
        using e(3) by (simp only: enc_eq_iff)
      show "val3 b0 b1 0 mod 64 = val3 c0 c1 0 mod 64"
        by (simp add: val3_0 low_digit_0)
    qed
    with 3 show ?thesis by simp
  qed (use "3.prems" in \<open>simp_all add: Let_def enc_not_pad\<close>)
next
  case (4 b0 b1 b2 src)
  show ?case
  proof (cases ys rule: EncodeToString.cases)
    case (4 c0 c1 c2 src')
    with "4.prems" have e: "enc (val3 b0 b1 b2 div 262144) = enc (val3 c0 c1 c2 div 262144)"
      "enc (val3 b0 b1 b2 div 4096) = enc (val3 c0 c1 c2 div 4096)"
      "enc (val3 b0 b1 b2 div 64) = enc (val3 c0 c1 c2 div 64)"
      "enc (val3 b0 b1 b2) = enc (val3 c0 c1 c2)"
      "EncodeToString src = EncodeToString src'"
      by (simp_all add: Let_def val3_3)
    have "b0 = c0 \<and> b1 = c1 \<and> b2 = c2"
      using e(1,2)
    proof (rule quad_val3)
      show "val3 b0 b1 b2 div 64 mod 64 = val3 c0 c1 c2 div 64 mod 64"
        using e(3) by (simp only: enc_eq_iff)
      show "val3 b0 b1 b2 mod 64 = val3 c0 c1 c2 mod 64"
        using e(4) by (simp only: enc_eq_iff)
    qed
    moreover from e(5) have "src = src'" by (rule "4.IH" [OF refl])
    ultimately show ?thesis using 4 by simp
  qed (use "4.prems" in \<open>simp_all add: Let_def enc_not_pad\<close>)
qed

lemma length_EncodeToString: "length (EncodeToString src) = 4 * ((length src + 2) div 3)"
proof (induction src rule: EncodeToString.induct)
  case (4 b0 b1 b2 src)
  have "(length (b0 # b1 # b2 # src) + 2) div 3 = Suc ((length src + 2) div 3)"
    by simp
  with 4 show ?case by (simp add: Let_def)
qed (simp_all add: Let_def)

lemma set_EncodeToString: "set (EncodeToString src) \<subseteq> set encodeURL \<union> {StdPadding}"
  by (induction src rule: EncodeToString.induct) (simp_all add: Let_def enc_in_alphabet)

lemma MsgIDFunction_eq: "MsgIDFunction sum256 m = EncodeToString (sum256 (Data m))"
  by (simp add: MsgIDFunction_def New_def Write_def Sum_def)

text \<open>
  Claim C5. The message id is the URL-safe base64 encoding of the digest of the
  \<open>Data\<close> field, as the specification words it: four characters for every three
  bytes of the digest, rounded up (padded, nothing cut off), all from the URL-safe
  alphabet or the padding character. The encoding loses nothing, so two ids are equal
  exactly when the digests are; the id reads no field but \<open>Data\<close>, so messages with
  equal data have equal ids whatever their other fields, also fields of an extension.
  The digest function of the library, SHA-256, is the parameter \<open>sum256\<close>.
\<close>

theorem MsgIDFunction_base64url_sha256:
  "MsgIDFunction sum256 m = spec_msg_id sum256 m \<and>
   length (MsgIDFunction sum256 m) = 4 * ((length (sum256 (Data m)) + 2) div 3) \<and>
   set (MsgIDFunction sum256 m) \<subseteq> set encodeURL \<union> {StdPadding} \<and>
   ((MsgIDFunction sum256 m = MsgIDFunction sum256 m') = (sum256 (Data m) = sum256 (Data m'))) \<and>
   (Data m = Data m' \<longrightarrow> MsgIDFunction sum256 m = MsgIDFunction sum256 m')"
proof -
  have "(EncodeToString (sum256 (Data m)) = EncodeToString (sum256 (Data m')))
      = (sum256 (Data m) = sum256 (Data m'))"
    by (auto dest: EncodeToString_inj)
  then show ?thesis
    using set_EncodeToString [of "sum256 (Data m)"]
    by (simp add: MsgIDFunction_eq spec_msg_id_def length_EncodeToString)
qed

text \<open>
  Witness of C5: two messages with the same data from different senders, and a
  digest of 32 bytes, which gives an id of 44 characters.
\<close>

theorem MsgIDFunction_base64url_sha256_witness:
  "Data (example_msg ''P4'') = Data (example_msg ''P5'') \<and>
   From (example_msg ''P4'') \<noteq> From (example_msg ''P5'') \<and>
   MsgIDFunction example_sum256 (example_msg ''P4'')
     = MsgIDFunction example_sum256 (example_msg ''P5'') \<and>
   MsgIDFunction example_sum256 (example_msg ''P4'')
     = ''AwsTGyMrMztDS1NbY2tze4OLk5ujq7O7w8vT2-Pr-_8='' \<and>
   length (MsgIDFunction example_sum256 (example_msg ''P4'')) = 44"
proof -
  have d: "Data (example_msg ''P4'') = Data (example_msg ''P5'')"
    by (simp add: example_msg_def)
  have f: "From (example_msg ''P4'') \<noteq> From (example_msg ''P5'')"
    by (simp add: example_msg_def)
  have v: "MsgIDFunction example_sum256 (example_msg ''P4'')
     = ''AwsTGyMrMztDS1NbY2tze4OLk5ujq7O7w8vT2-Pr-_8=''"
    by (simp add: MsgIDFunction_def New_def Write_def Sum_def example_sum256_def example_msg_def
      enc_def encodeURL_def StdPadding_def)
  have l: "length (example_sum256 (Data (example_msg ''P4''))) = 32"
    by (simp add: example_sum256_def)
  note t = MsgIDFunction_base64url_sha256
      [of example_sum256 "example_msg ''P4''" "example_msg ''P5''"]
  from t d have e: "MsgIDFunction example_sum256 (example_msg ''P4'')
     = MsgIDFunction example_sum256 (example_msg ''P5'')" by blast
  from t have "length (MsgIDFunction example_sum256 (example_msg ''P4''))
     = 4 * ((length (example_sum256 (Data (example_msg ''P4''))) + 2) div 3)" by blast
  with l have n: "length (MsgIDFunction example_sum256 (example_msg ''P4'')) = 44" by simp
  from d f e v n show ?thesis by blast
qed

end
